theory Spec2Isabelle
  imports Main
begin

section \<open>Go string primitives used by the sources\<close>

text \<open>
  Go strings are byte sequences; \<open>string\<close> (a list of 8-bit \<open>char\<close>) is the same data.
  The sources call \<open>strings.IndexByte\<close>, \<open>strings.SplitN\<close>, \<open>strings.Split\<close>,
  \<open>strings.Join\<close>, \<open>strings.HasPrefix\<close> and \<open>strconv.Atoi\<close> of the Go standard
  library; every call site passes a one-byte separator, so the separator is a \<open>char\<close>.
\<close>

definition IndexByte :: "string \<Rightarrow> char \<Rightarrow> int" where
  \<comment> \<open>index of the first occurrence of the byte, or -1\<close>
  "IndexByte s c =
     (if c \<in> set s then int (length (takeWhile (\<lambda>x. x \<noteq> c) s)) else - 1)"

definition Count :: "string \<Rightarrow> char \<Rightarrow> nat" where
  "Count s sep = length (filter (\<lambda>x. x = sep) s)"

text \<open>
  The loop of \<open>genSplit\<close>: at most \<open>k\<close> cuts, each at the first separator of what is
  left; the rest of the string is the last element.
\<close>

fun splitLoop :: "string \<Rightarrow> char \<Rightarrow> nat \<Rightarrow> string list" where
  "splitLoop s sep 0 = [s]"
| "splitLoop s sep (Suc k) =
     (let m = IndexByte s sep
      in if m < 0 then [s]
         else take (nat m) s # splitLoop (drop (nat m + 1) s) sep k)"

definition genSplit :: "string \<Rightarrow> char \<Rightarrow> int \<Rightarrow> string list" where
  "genSplit s sep n =
     (if n = 0 then []
      else
        let n1 = (if n < 0 then int (Count s sep) + 1 else n);
            n2 = (if n1 > int (length s) + 1 then int (length s) + 1 else n1)
        in splitLoop s sep (nat (n2 - 1)))"

definition SplitN :: "string \<Rightarrow> char \<Rightarrow> int \<Rightarrow> string list" where
  "SplitN s sep n = genSplit s sep n"

definition Split :: "string \<Rightarrow> char \<Rightarrow> string list" where
  "Split s sep = genSplit s sep (- 1)"

fun Join :: "string list \<Rightarrow> string \<Rightarrow> string" where
  "Join [] sep = []"
| "Join [x] sep = x"
| "Join (x # y # ys) sep = x @ sep @ Join (y # ys) sep"

definition HasPrefix :: "string \<Rightarrow> string \<Rightarrow> bool" where
  "HasPrefix s p = (take (length p) s = p)"

subsection \<open>\<open>strconv.Atoi\<close>\<close>








section \<open>Domain name utilities (\<open>utils/domain-utils.go\<close>)\<close>


definition GetDomainWithoutPort :: "string \<Rightarrow> string \<times> bool" where
  "GetDomainWithoutPort domain =
     (let a = SplitN domain CHR '':'' 2
      in if length a = 2 then (a ! 0, True)
         else if length a = 0 then ([], False)
         else (a ! 0, True))"

definition GetBaseDomain :: "string \<Rightarrow> string \<times> bool" where
  "GetBaseDomain domain =
     (let a = SplitN domain CHR ''.'' 2; l = length a
      in if l = 2 then (a ! 1, True)
         else if l = 1 then (a ! 0, True)
         else ([], False))"

definition ReplaceSubdomainWithWildcard :: "string \<Rightarrow> string \<times> bool" where
  "ReplaceSubdomainWithWildcard domain =
     (let (a, b) = GetBaseDomain domain in (''*.'' @ a, b))"

definition GetTopFqdn :: "string \<Rightarrow> string \<times> bool" where
  "GetTopFqdn domain =
     (let a = Split domain CHR ''.''; l = length a
      in if l \<ge> 2 then (Join (drop (l - 2) a) ''.'', True)
         else if l = 1 then (domain, True)
         else ([], False))"

section \<open>The per-host path router\<close>

text \<open>
  Modelled from the spec: the path-pattern router (the library \<open>httprouter\<close>) is a
  dependency whose code is not among the sources. A routing sub-table maps
  "(method, path-pattern)" to a target, and the patterns are "literal and
  named-parameter segments": a segment \<open>:name\<close> stands for one non-empty path segment,
  a trailing \<open>*name\<close> for the rest of the path.

  \<open>router.go\<close> keeps one such router per host and uses three of its operations:
  \<open>New\<close>, \<open>Handler(method, path, h)\<close> and \<open>Lookup(method, path)\<close>. The router
  keeps one tree of patterns per HTTP method (\<open>trees map[string]*node\<close>); \<open>Lookup\<close>
  answers from the tree of the method it is given and finds nothing when that method has
  no tree. A tree is kept here as the list of its patterns in the order of registration.
  The parameters that \<open>Lookup\<close> extracts and its trailing-slash signal, which
  \<open>router.go\<close> hands on or drops, are left out. The library also refuses a pattern
  that conflicts with a registered parameter segment; that refusal is not modelled, and
  nothing below depends on which of two overlapping patterns is found.
\<close>

function pmatch :: "string \<Rightarrow> string \<Rightarrow> bool" where
  "pmatch [] path = (path = [])"
| "pmatch (p # ps) path =
     (if p = CHR '':'' then
        takeWhile (\<lambda>c. c \<noteq> CHR ''/'') path \<noteq> [] \<and>
        pmatch (dropWhile (\<lambda>c. c \<noteq> CHR ''/'') ps) (dropWhile (\<lambda>c. c \<noteq> CHR ''/'') path)
      else if p = CHR ''*'' then True
      else (case path of [] \<Rightarrow> False | c # cs \<Rightarrow> p = c \<and> pmatch ps cs))"
  by pat_completeness auto
termination
  by (relation "measure (\<lambda>(p, s). length p)") (auto simp: le_imp_less_Suc length_dropWhile_le)

type_synonym 'h node = "(string \<times> 'h) list"

record 'h httprouter =
  trees :: "string \<rightharpoonup> 'h node"

definition httprouter_New :: "'h httprouter" where
  "httprouter_New = \<lparr>trees = Map.empty\<rparr>"

definition getValue :: "'h node \<Rightarrow> string \<Rightarrow> 'h option" where
  "getValue n path = map_option snd (find (\<lambda>(p, h). pmatch p path) n)"

definition Lookup :: "'h httprouter \<Rightarrow> string \<Rightarrow> string \<Rightarrow> 'h option" where
  "Lookup r method path =
     (case trees r method of None \<Rightarrow> None | Some root \<Rightarrow> getValue root path)"

text \<open>
  \<open>Handler\<close> panics (\<open>None\<close>) on a path that does not begin with \<open>/\<close> and on a
  pattern that the method's tree already holds; otherwise it adds the pattern to the tree
  of the given method, creating the tree when the method has none.
\<close>

definition Handler :: "'h httprouter \<Rightarrow> string \<Rightarrow> string \<Rightarrow> 'h \<Rightarrow> 'h httprouter option" where
  "Handler r method path handle =
     (if \<not> HasPrefix path ''/'' then None
      else
        let root = (case trees r method of None \<Rightarrow> [] | Some n \<Rightarrow> n)
        in if path \<in> set (map fst root) then None
           else Some (r\<lparr>trees := (trees r)(method \<mapsto> root @ [(path, handle)])\<rparr>))"

section \<open>The routing table and the dispatcher (\<open>router/router.go\<close>)\<close>

record request =
  Host :: string
  Method :: string
  Path :: string

text \<open>
  A \<open>http.ResponseWriter\<close> is modelled by the log of what was done to it: a route or a
  redirect target was handed the writer and the request, a status line was sent with
  \<open>WriteHeader\<close>, or bytes were written with \<open>Write\<close>. \<open>router.go\<close> itself only
  writes bytes, in the not-found handler.
\<close>

datatype ('rt, 'rd) effect =
  ServeRoute 'rt | ServeRedirect 'rd | WriteHeader nat | Write string

type_synonym ('rt, 'rd) ResponseWriter = "('rt, 'rd) effect list"

record ('rt, 'rd) Router =
  route :: "string \<rightharpoonup> 'rt httprouter"
  redirect :: "string \<rightharpoonup> 'rd httprouter"

definition MethodGet :: string where
  "MethodGet = ''GET''"

definition StatusOK :: nat where
  "StatusOK = 200"

definition StatusNotFound :: nat where
  "StatusNotFound = 404"

text \<open>
  The status code that the calls on a response writer have sent, after \<open>net/http\<close>: the
  code of an explicit \<open>WriteHeader\<close>, or \<open>StatusOK\<close> when the first call is a \<open>Write\<close>
  (a \<open>Write\<close> before any \<open>WriteHeader\<close> sends the status 200 first). It is \<open>None\<close>
  when nothing was called, and when a target was handed the writer first: what a target
  sends is not modelled.
\<close>

fun statusCode :: "('rt, 'rd) ResponseWriter \<Rightarrow> nat option" where
  "statusCode [] = None"
| "statusCode (WriteHeader code # rw) = Some code"
| "statusCode (Write b # rw) = Some StatusOK"
| "statusCode (ServeRoute t # rw) = None"
| "statusCode (ServeRedirect t # rw) = None"

definition StatusText :: "nat \<Rightarrow> string" where
  \<comment> \<open>the entries of \<open>http.StatusText\<close> for the common codes; an unknown code gives the empty string\<close>
  "StatusText code =
     (if code = 200 then ''OK''
      else if code = 400 then ''Bad Request''
      else if code = 403 then ''Forbidden''
      else if code = 404 then ''Not Found''
      else if code = 500 then ''Internal Server Error''
      else [])"

fun formatDecimal :: "nat \<Rightarrow> string" where
  "formatDecimal n =
     (if n < 10 then [char_of (48 + n)]
      else formatDecimal (n div 10) @ [char_of (48 + n mod 10)])"

declare formatDecimal.simps [simp del]

definition Fprintf_d_s_nl :: "nat \<Rightarrow> string \<Rightarrow> string" where
  \<comment> \<open>the bytes that the format \<open>"%d %s\n"\<close> produces\<close>
  "Fprintf_d_s_nl d s = formatDecimal d @ '' '' @ s @ [CHR 0x0A]"

definition notFound :: "('rt, 'rd) ResponseWriter \<Rightarrow> request \<Rightarrow> ('rt, 'rd) ResponseWriter" where
  \<comment> \<open>the handler that \<open>New\<close> stores in the field \<open>notFound\<close>, which nothing reassigns\<close>
  "notFound rw req = rw @ [Write (Fprintf_d_s_nl StatusNotFound (StatusText StatusNotFound))]"

definition New :: "('rt, 'rd) Router" where
  "New = \<lparr>route = Map.empty, redirect = Map.empty\<rparr>"

definition hostRoute :: "('rt, 'rd) Router \<Rightarrow> string \<Rightarrow> 'rt httprouter \<times> ('rt, 'rd) Router" where
  "hostRoute r host =
     (case route r host of
        None \<Rightarrow> (httprouter_New, r\<lparr>route := (route r)(host \<mapsto> httprouter_New)\<rparr>)
      | Some h \<Rightarrow> (h, r))"

definition hostRedirect :: "('rt, 'rd) Router \<Rightarrow> string \<Rightarrow> 'rd httprouter \<times> ('rt, 'rd) Router" where
  "hostRedirect r host =
     (case redirect r host of
        None \<Rightarrow> (httprouter_New, r\<lparr>redirect := (redirect r)(host \<mapsto> httprouter_New)\<rparr>)
      | Some h \<Rightarrow> (h, r))"

text \<open>
  The per-host router is a pointer in the Go map, so \<open>Handler\<close> on it updates the entry
  of the map; the model stores the updated router back under the host.
\<close>

definition AddRoute :: "('rt, 'rd) Router \<Rightarrow> string \<Rightarrow> string \<Rightarrow> 'rt \<Rightarrow> ('rt, 'rd) Router option" where
  "AddRoute r host path t =
     (let path' = (if \<not> HasPrefix path ''/'' then ''/'' @ path else path);
          (h, r') = hostRoute r host
      in case Handler h MethodGet path' t of
           None \<Rightarrow> None
         | Some h' \<Rightarrow> Some (r'\<lparr>route := (route r')(host \<mapsto> h')\<rparr>))"

definition AddRedirect :: "('rt, 'rd) Router \<Rightarrow> string \<Rightarrow> string \<Rightarrow> 'rd \<Rightarrow> ('rt, 'rd) Router option" where
  "AddRedirect r host path t =
     (let path' = (if \<not> HasPrefix path ''/'' then ''/'' @ path else path);
          (h, r') = hostRedirect r host
      in case Handler h MethodGet path' t of
           None \<Rightarrow> None
         | Some h' \<Rightarrow> Some (r'\<lparr>redirect := (redirect r')(host \<mapsto> h')\<rparr>))"

definition AddService :: "('rt, 'rd) Router \<Rightarrow> string \<Rightarrow> 'rt \<Rightarrow> ('rt, 'rd) Router option" where
  "AddService r host t = AddRoute r host ''/'' t"

definition serveRouteHTTP ::
  "('rt, 'rd) Router \<Rightarrow> ('rt, 'rd) ResponseWriter \<Rightarrow> request \<Rightarrow> string
     \<Rightarrow> ('rt, 'rd) ResponseWriter \<times> bool" where
  "serveRouteHTTP r rw req host =
     (case route r host of
        None \<Rightarrow> (rw, False)
      | Some h \<Rightarrow>
          (case Lookup h (Method req) (Path req) of
             None \<Rightarrow> (rw, False)
           | Some lookup \<Rightarrow> (rw @ [ServeRoute lookup], True)))"

definition serveRedirectHTTP ::
  "('rt, 'rd) Router \<Rightarrow> ('rt, 'rd) ResponseWriter \<Rightarrow> request \<Rightarrow> string
     \<Rightarrow> ('rt, 'rd) ResponseWriter \<times> bool" where
  "serveRedirectHTTP r rw req host =
     (case redirect r host of
        None \<Rightarrow> (rw, False)
      | Some h \<Rightarrow>
          (case Lookup h (Method req) (Path req) of
             None \<Rightarrow> (rw, False)
           | Some lookup \<Rightarrow> (rw @ [ServeRedirect lookup], True)))"

definition ServeHTTP ::
  "('rt, 'rd) Router \<Rightarrow> ('rt, 'rd) ResponseWriter \<Rightarrow> request \<Rightarrow> ('rt, 'rd) ResponseWriter" where
  "ServeHTTP r rw req =
     (let host = Host req;
          (rw1, ok1) = serveRedirectHTTP r rw req host
      in if ok1 then rw1
         else
           let (rw2, ok2) = serveRouteHTTP r rw1 req host
           in if ok2 then rw2
              else
                let parentHostDot = IndexByte host CHR ''.''
                in if parentHostDot = - 1 then notFound rw2 req
                   else
                     let wildcardHost = ''*'' @ drop (nat parentHostDot) host;
                         (rw3, ok3) = serveRedirectHTTP r rw2 req wildcardHost
                     in if ok3 then rw3
                        else
                          let (rw4, ok4) = serveRouteHTTP r rw3 req wildcardHost
                          in if ok4 then rw4 else rw4)"

text \<open>
  What a request finds under one host key of each table: the target that
  \<open>serveRedirectHTTP\<close> and \<open>serveRouteHTTP\<close> would call.
\<close>

definition redirectFor :: "('rt, 'rd) Router \<Rightarrow> request \<Rightarrow> string \<Rightarrow> 'rd option" where
  "redirectFor r req host =
     (case redirect r host of None \<Rightarrow> None | Some h \<Rightarrow> Lookup h (Method req) (Path req))"

definition routeFor :: "('rt, 'rd) Router \<Rightarrow> request \<Rightarrow> string \<Rightarrow> 'rt option" where
  "routeFor r req host =
     (case route r host of None \<Rightarrow> None | Some h \<Rightarrow> Lookup h (Method req) (Path req))"

text \<open>A table built through the registration interface, one call after the other.\<close>

datatype ('rt, 'rd) registration =
  RegRoute string string 'rt | RegRedirect string string 'rd | RegService string 'rt

fun register :: "('rt, 'rd) Router \<Rightarrow> ('rt, 'rd) registration list \<Rightarrow> ('rt, 'rd) Router option" where
  "register r [] = Some r"
| "register r (RegRoute host path t # regs) =
     (case AddRoute r host path t of None \<Rightarrow> None | Some r' \<Rightarrow> register r' regs)"
| "register r (RegRedirect host path t # regs) =
     (case AddRedirect r host path t of None \<Rightarrow> None | Some r' \<Rightarrow> register r' regs)"
| "register r (RegService host t # regs) =
     (case AddService r host t of None \<Rightarrow> None | Some r' \<Rightarrow> register r' regs)"

section \<open>The favicon provider (\<open>favicons/favicons.go\<close>)\<close>

text \<open>
  The storage is what the query \<open>select host, svg, png, ico from favicons\<close> does at the
  time of the rebuild. The query fails, or it gives a row cursor. The cursor delivers
  rows, one for each \<open>Next()\<close> that returns true, and each row scans into four strings
  or fails to scan. \<open>Next()\<close> returns false after the last row and also when stepping
  to the next row fails; \<open>Err()\<close> tells the two apart, \<open>None\<close> after the last row.
  \<open>CreateFaviconImage\<close> and \<open>PreProcess\<close> live in files of the package that are not
  among the sources and are parameters; \<open>PreProcess\<close> changes the list it is called on
  and may fail. The log line of a failed rebuild is not modelled.
\<close>

datatype 'e compileError = QueryFailed 'e | ScanFailed 'e | PreProcessFailed 'e

record 'img FaviconList =
  Ico :: 'img
  Png :: 'img
  Svg :: 'img

type_synonym 'e rows = "('e + string \<times> string \<times> string \<times> string) list"

record 'e Rows =
  delivered :: "'e rows"
  Err :: "'e option"

record ('img, 'e) Favicons =
  db :: "'e + 'e Rows"
  cmd :: string
  faviconMap :: "string \<rightharpoonup> 'img FaviconList"

definition GetIcons :: "('img, 'e) Favicons \<Rightarrow> string \<Rightarrow> 'img FaviconList option" where
  "GetIcons f host = faviconMap f host"

text \<open>
  The loop over the rows. Each row stores its list in the map and starts \<open>PreProcess\<close> on
  it in the error group; the goroutine only touches its own list, so it is run at once
  here, and \<open>gerr\<close> is what \<open>g.Wait()\<close> will report (the first failure in row order; the
  Go scheduler decides which failure is first, and only its presence matters below).
\<close>

fun scanRows ::
  "(string \<Rightarrow> 'img) \<Rightarrow> ('img FaviconList \<Rightarrow> 'img FaviconList \<times> 'e option) \<Rightarrow> 'e rows
     \<Rightarrow> (string \<rightharpoonup> 'img FaviconList) \<Rightarrow> 'e option
     \<Rightarrow> (string \<rightharpoonup> 'img FaviconList) \<times> 'e compileError option" where
  "scanRows CreateFaviconImage PreProcess [] m gerr = (m, map_option PreProcessFailed gerr)"
| "scanRows CreateFaviconImage PreProcess (Inl err # rest) m gerr = (m, Some (ScanFailed err))"
| "scanRows CreateFaviconImage PreProcess (Inr (host, rawSvg, rawPng, rawIco) # rest) m gerr =
     (let l = \<lparr>Ico = CreateFaviconImage rawIco,
               Png = CreateFaviconImage rawPng,
               Svg = CreateFaviconImage rawSvg\<rparr>;
          (l', err) = PreProcess l
      in scanRows CreateFaviconImage PreProcess rest (m(host \<mapsto> l'))
           (if gerr = None then err else gerr))"

text \<open>
  \<open>internalCompile\<close> walks the rows that the cursor delivers and then waits for the
  error group. It never calls \<open>query.Err()\<close>, so the field \<open>Err\<close> is not read.
\<close>

definition internalCompile ::
  "(string \<Rightarrow> 'img) \<Rightarrow> ('img FaviconList \<Rightarrow> 'img FaviconList \<times> 'e option) \<Rightarrow> ('img, 'e) Favicons
     \<Rightarrow> (string \<rightharpoonup> 'img FaviconList)
     \<Rightarrow> (string \<rightharpoonup> 'img FaviconList) \<times> 'e compileError option" where
  "internalCompile CreateFaviconImage PreProcess f m =
     (case db f of
        Inl err \<Rightarrow> (m, Some (QueryFailed err))
      | Inr query \<Rightarrow> scanRows CreateFaviconImage PreProcess (delivered query) m None)"

definition threadCompile ::
  "(string \<Rightarrow> 'img) \<Rightarrow> ('img FaviconList \<Rightarrow> 'img FaviconList \<times> 'e option) \<Rightarrow> ('img, 'e) Favicons
     \<Rightarrow> ('img, 'e) Favicons" where
  "threadCompile CreateFaviconImage PreProcess f =
     (let favicons = Map.empty;
          (favicons', err) = internalCompile CreateFaviconImage PreProcess f favicons
      in case err of
           Some e \<Rightarrow> f
         | None \<Rightarrow> f\<lparr>faviconMap := favicons'\<rparr>)"

section \<open>Notions used by the statements\<close>

text \<open>The bytes written to a response writer, in order.\<close>

definition bodyWritten :: "('rt, 'rd) ResponseWriter \<Rightarrow> string" where
  "bodyWritten rw = concat (map (\<lambda>e. case e of Write s \<Rightarrow> s | _ \<Rightarrow> []) rw)"

text \<open>A path router, and a routing table, that hold registrations under \<open>GET\<close> only.\<close>

definition getOnly :: "'h httprouter \<Rightarrow> bool" where
  "getOnly h = (\<forall>m. m \<noteq> MethodGet \<longrightarrow> trees h m = None)"

definition onlyGET :: "('rt, 'rd) Router \<Rightarrow> bool" where
  "onlyGET r =
     ((\<forall>host h. route r host = Some h \<longrightarrow> getOnly h) \<and>
      (\<forall>host h. redirect r host = Some h \<longrightarrow> getOnly h))"

section \<open>Facts about splitting\<close>

lemma IndexByte_absent: "c \<notin> set s \<Longrightarrow> IndexByte s c = - 1"
  by (simp add: IndexByte_def)

lemma IndexByte_present:
  "c \<in> set s \<Longrightarrow> IndexByte s c = int (length (takeWhile (\<lambda>x. x \<noteq> c) s))"
  by (simp add: IndexByte_def)

lemma IndexByte_neg_iff: "IndexByte s c < 0 \<longleftrightarrow> c \<notin> set s"
  by (simp add: IndexByte_def)

lemma take_IndexByte:
  "c \<in> set s \<Longrightarrow> take (nat (IndexByte s c)) s = takeWhile (\<lambda>x. x \<noteq> c) s"
  by (simp add: IndexByte_present takeWhile_eq_take [symmetric])

lemma drop_IndexByte:
  "c \<in> set s \<Longrightarrow> drop (nat (IndexByte s c)) s = dropWhile (\<lambda>x. x \<noteq> c) s"
  by (simp add: IndexByte_present dropWhile_eq_drop [symmetric])

lemma drop_Suc_IndexByte:
  "c \<in> set s \<Longrightarrow> drop (nat (IndexByte s c) + 1) s = tl (dropWhile (\<lambda>x. x \<noteq> c) s)"
  by (simp add: IndexByte_present dropWhile_eq_drop drop_Suc tl_drop)

lemma splitLoop_nonempty: "splitLoop s sep k \<noteq> []"
  by (cases k) (simp_all add: Let_def)

lemma SplitN_2_absent: "c \<notin> set s \<Longrightarrow> SplitN s c 2 = [s]"
  by (cases s) (simp_all add: SplitN_def genSplit_def IndexByte_absent Let_def)

lemma SplitN_2_present:
  "c \<in> set s \<Longrightarrow>
     SplitN s c 2 = [takeWhile (\<lambda>x. x \<noteq> c) s, tl (dropWhile (\<lambda>x. x \<noteq> c) s)]"
proof -
  assume c: "c \<in> set s"
  then have "s \<noteq> []" by auto
  then have n: "genSplit s c 2 = splitLoop s c (Suc 0)"
    by (cases s) (simp_all add: genSplit_def Let_def)
  have "\<not> IndexByte s c < 0" using c by (simp add: IndexByte_neg_iff)
  then have "splitLoop s c (Suc 0) =
      [take (nat (IndexByte s c)) s, drop (nat (IndexByte s c) + 1) s]"
    by (simp add: Let_def)
  with n c show ?thesis
    by (simp only: SplitN_def take_IndexByte drop_Suc_IndexByte)
qed

lemma Split_nonempty: "Split s sep \<noteq> []"
  by (simp add: Split_def genSplit_def Let_def splitLoop_nonempty)

lemma takeWhile_absent: "c \<notin> set s \<Longrightarrow> takeWhile (\<lambda>x. x \<noteq> c) s = s"
  by (induction s) auto

lemma dropWhile_present:
  "c \<in> set s \<Longrightarrow> dropWhile (\<lambda>x. x \<noteq> c) s = c # tl (dropWhile (\<lambda>x. x \<noteq> c) s)"
  by (induction s) auto

lemma GetBaseDomain_eq:
  "GetBaseDomain d =
     (if CHR ''.'' \<in> set d then (tl (dropWhile (\<lambda>x. x \<noteq> CHR ''.'') d), True) else (d, True))"
  by (simp add: GetBaseDomain_def SplitN_2_absent SplitN_2_present Let_def)

section \<open>The domain name utilities\<close>




text \<open>
  Claim C9, as the code has it. \<open>GetDomainWithoutPort\<close> returns the text before the first
  colon (the whole host when it has none) and always reports success.
\<close>

theorem GetDomainWithoutPort_total:
  "GetDomainWithoutPort host = (takeWhile (\<lambda>x. x \<noteq> CHR '':'') host, True)"
proof (cases "CHR '':'' \<in> set host")
  case True
  then show ?thesis by (simp add: GetDomainWithoutPort_def SplitN_2_present Let_def)
next
  case False
  then show ?thesis
    by (simp add: GetDomainWithoutPort_def SplitN_2_absent Let_def takeWhile_absent)
qed

text \<open>
  Claim C9 as written says that the empty host fails. Splitting the empty string gives
  one empty element, so the code answers the empty domain with success.
\<close>

theorem GetDomainWithoutPort_empty_counterexample:
  "GetDomainWithoutPort [] = ([], True)"
  by (simp add: GetDomainWithoutPort_def SplitN_def genSplit_def)

text \<open>
  Claim C10. \<open>GetBaseDomain\<close>, \<open>ReplaceSubdomainWithWildcard\<close> and \<open>GetTopFqdn\<close> report
  success on every string, the empty one included: a split never gives an empty list, so
  the branch that reports failure is never taken.
\<close>

theorem domain_utilities_total:
  "snd (GetBaseDomain d) \<and> snd (ReplaceSubdomainWithWildcard d) \<and> snd (GetTopFqdn d)"
proof -
  have b: "snd (GetBaseDomain d)" by (simp add: GetBaseDomain_eq)
  then have w: "snd (ReplaceSubdomainWithWildcard d)"
    by (simp add: ReplaceSubdomainWithWildcard_def split_beta)
  have "Split d CHR ''.'' \<noteq> []" by (rule Split_nonempty)
  then have "0 < length (Split d CHR ''.'')" by simp
  then have "2 \<le> length (Split d CHR ''.'') \<or> length (Split d CHR ''.'') = 1" by arith
  then have t: "snd (GetTopFqdn d)"
    by (auto simp: GetTopFqdn_def Let_def)
  from b w t show ?thesis by simp
qed

section \<open>The dispatcher\<close>

lemma serveRedirectHTTP_eq:
  "serveRedirectHTTP r rw req host =
     (case redirectFor r req host of
        None \<Rightarrow> (rw, False) | Some t \<Rightarrow> (rw @ [ServeRedirect t], True))"
  by (simp add: serveRedirectHTTP_def redirectFor_def split: option.splits)

lemma serveRouteHTTP_eq:
  "serveRouteHTTP r rw req host =
     (case routeFor r req host of
        None \<Rightarrow> (rw, False) | Some t \<Rightarrow> (rw @ [ServeRoute t], True))"
  by (simp add: serveRouteHTTP_def routeFor_def split: option.splits)

lemma IndexByte_eq_minus1: "IndexByte s c = - 1 \<longleftrightarrow> c \<notin> set s"
  by (simp add: IndexByte_def)

text \<open>The four lookups of \<open>ServeHTTP\<close> in their order, and what ends each.\<close>

lemma ServeHTTP_eq:
  "ServeHTTP r rw req =
     (case redirectFor r req (Host req) of
        Some b \<Rightarrow> rw @ [ServeRedirect b]
      | None \<Rightarrow>
          (case routeFor r req (Host req) of
             Some a \<Rightarrow> rw @ [ServeRoute a]
           | None \<Rightarrow>
               if CHR ''.'' \<notin> set (Host req) then notFound rw req
               else
                 (case redirectFor r req (''*'' @ dropWhile (\<lambda>c. c \<noteq> CHR ''.'') (Host req)) of
                    Some b \<Rightarrow> rw @ [ServeRedirect b]
                  | None \<Rightarrow>
                      (case routeFor r req (''*'' @ dropWhile (\<lambda>c. c \<noteq> CHR ''.'') (Host req)) of
                         Some a \<Rightarrow> rw @ [ServeRoute a]
                       | None \<Rightarrow> rw))))"
  by (simp add: ServeHTTP_def serveRedirectHTTP_eq serveRouteHTTP_eq Let_def
      IndexByte_eq_minus1 drop_IndexByte split: option.splits)

lemma formatDecimal_404: "formatDecimal 404 = ''404''"
  by code_simp

lemma notFound_eq: "notFound rw req = rw @ [Write (''404 Not Found'' @ [CHR 0x0A])]"
  by (simp add: notFound_def Fprintf_d_s_nl_def StatusNotFound_def StatusText_def
      formatDecimal_404)

lemmas eval_defs = AddRoute_def AddRedirect_def AddService_def hostRoute_def hostRedirect_def
  Handler_def HasPrefix_def MethodGet_def httprouter_New_def New_def Let_def

text \<open>
  The order of the lookups. A request is answered by the first of four lookups that
  finds a target, each made with the request's method and path: the redirect table under the request's host,
  the route table under that host, the redirect table under the wildcard form of the
  host, the route table under the wildcard form. So a redirect registered for the host
  is served whatever the route table holds for it, and a redirect or a route registered
  for the exact host is served whatever is registered for the wildcard form. In each
  case the target is the one thing done to the response writer.
\<close>

lemma dispatch_precedence:
  "(redirectFor r req (Host req) = Some b \<longrightarrow> ServeHTTP r rw req = rw @ [ServeRedirect b]) \<and>
   (redirectFor r req (Host req) = None \<and> routeFor r req (Host req) = Some a \<longrightarrow>
      ServeHTTP r rw req = rw @ [ServeRoute a]) \<and>
   (redirectFor r req (Host req) = None \<and> routeFor r req (Host req) = None \<and>
    CHR ''.'' \<in> set (Host req) \<and>
    redirectFor r req (''*'' @ dropWhile (\<lambda>c. c \<noteq> CHR ''.'') (Host req)) = Some b \<longrightarrow>
      ServeHTTP r rw req = rw @ [ServeRedirect b]) \<and>
   (redirectFor r req (Host req) = None \<and> routeFor r req (Host req) = None \<and>
    CHR ''.'' \<in> set (Host req) \<and>
    redirectFor r req (''*'' @ dropWhile (\<lambda>c. c \<noteq> CHR ''.'') (Host req)) = None \<and>
    routeFor r req (''*'' @ dropWhile (\<lambda>c. c \<noteq> CHR ''.'') (Host req)) = Some a \<longrightarrow>
      ServeHTTP r rw req = rw @ [ServeRoute a])"
  by (simp add: ServeHTTP_eq)

text \<open>
  The order on a table with a route and a redirect for \<open>shop.example.com\<close> and for
  \<open>*.example.com\<close>: path \<open>/\<close> has both under the exact host and gets the redirect;
  \<open>/r\<close> has an exact route and a wildcard redirect and gets the route; \<open>/v\<close> has a
  wildcard redirect and a wildcard route and gets the redirect; \<open>/w\<close> has only the
  wildcard route.
\<close>

lemma dispatch_precedence_example:
  "ServeHTTP
     (the (register New
        [RegRoute ''shop.example.com'' ''/'' ''A'',
         RegRedirect ''shop.example.com'' ''/'' ''B'',
         RegRoute ''shop.example.com'' ''/r'' ''A2'',
         RegRedirect ''*.example.com'' ''/'' ''D'',
         RegRedirect ''*.example.com'' ''/r'' ''D2'',
         RegRedirect ''*.example.com'' ''/v'' ''D3'',
         RegRoute ''*.example.com'' ''/v'' ''C3'',
         RegRoute ''*.example.com'' ''/w'' ''C4'']))
     [] \<lparr>Host = ''shop.example.com'', Method = ''GET'', Path = ''/''\<rparr> = [ServeRedirect ''B''] \<and>
   ServeHTTP
     (the (register New
        [RegRoute ''shop.example.com'' ''/'' ''A'',
         RegRedirect ''shop.example.com'' ''/'' ''B'',
         RegRoute ''shop.example.com'' ''/r'' ''A2'',
         RegRedirect ''*.example.com'' ''/'' ''D'',
         RegRedirect ''*.example.com'' ''/r'' ''D2'',
         RegRedirect ''*.example.com'' ''/v'' ''D3'',
         RegRoute ''*.example.com'' ''/v'' ''C3'',
         RegRoute ''*.example.com'' ''/w'' ''C4'']))
     [] \<lparr>Host = ''shop.example.com'', Method = ''GET'', Path = ''/r''\<rparr> = [ServeRoute ''A2''] \<and>
   ServeHTTP
     (the (register New
        [RegRoute ''shop.example.com'' ''/'' ''A'',
         RegRedirect ''shop.example.com'' ''/'' ''B'',
         RegRoute ''shop.example.com'' ''/r'' ''A2'',
         RegRedirect ''*.example.com'' ''/'' ''D'',
         RegRedirect ''*.example.com'' ''/r'' ''D2'',
         RegRedirect ''*.example.com'' ''/v'' ''D3'',
         RegRoute ''*.example.com'' ''/v'' ''C3'',
         RegRoute ''*.example.com'' ''/w'' ''C4'']))
     [] \<lparr>Host = ''shop.example.com'', Method = ''GET'', Path = ''/v''\<rparr> = [ServeRedirect ''D3''] \<and>
   ServeHTTP
     (the (register New
        [RegRoute ''shop.example.com'' ''/'' ''A'',
         RegRedirect ''shop.example.com'' ''/'' ''B'',
         RegRoute ''shop.example.com'' ''/r'' ''A2'',
         RegRedirect ''*.example.com'' ''/'' ''D'',
         RegRedirect ''*.example.com'' ''/r'' ''D2'',
         RegRedirect ''*.example.com'' ''/v'' ''D3'',
         RegRoute ''*.example.com'' ''/v'' ''C3'',
         RegRoute ''*.example.com'' ''/w'' ''C4'']))
     [] \<lparr>Host = ''shop.example.com'', Method = ''GET'', Path = ''/w''\<rparr> = [ServeRoute ''C4'']"
proof -
  let ?R = "the (register New
        [RegRoute ''shop.example.com'' ''/'' ''A'',
         RegRedirect ''shop.example.com'' ''/'' ''B'',
         RegRoute ''shop.example.com'' ''/r'' ''A2'',
         RegRedirect ''*.example.com'' ''/'' ''D'',
         RegRedirect ''*.example.com'' ''/r'' ''D2'',
         RegRedirect ''*.example.com'' ''/v'' ''D3'',
         RegRoute ''*.example.com'' ''/v'' ''C3'',
         RegRoute ''*.example.com'' ''/w'' ''C4'']) :: (string, string) Router"
  have R: "?R =
     \<lparr>route = [''shop.example.com'' \<mapsto> \<lparr>trees = [''GET'' \<mapsto> [(''/'', ''A''), (''/r'', ''A2'')]]\<rparr>,
               ''*.example.com'' \<mapsto> \<lparr>trees = [''GET'' \<mapsto> [(''/v'', ''C3''), (''/w'', ''C4'')]]\<rparr>],
      redirect = [''shop.example.com'' \<mapsto> \<lparr>trees = [''GET'' \<mapsto> [(''/'', ''B'')]]\<rparr>,
                  ''*.example.com'' \<mapsto>
                    \<lparr>trees = [''GET'' \<mapsto> [(''/'', ''D''), (''/r'', ''D2''), (''/v'', ''D3'')]]\<rparr>]\<rparr>"
    by (simp add: eval_defs)
  show ?thesis
    using dispatch_precedence [where r = ?R and rw = "[]" and b = "''B''"
        and req = "\<lparr>Host = ''shop.example.com'', Method = ''GET'', Path = ''/''\<rparr>"]
      dispatch_precedence [where r = ?R and rw = "[]" and a = "''A2''"
        and req = "\<lparr>Host = ''shop.example.com'', Method = ''GET'', Path = ''/r''\<rparr>"]
      dispatch_precedence [where r = ?R and rw = "[]" and b = "''D3''"
        and req = "\<lparr>Host = ''shop.example.com'', Method = ''GET'', Path = ''/v''\<rparr>"]
      dispatch_precedence [where r = ?R and rw = "[]" and a = "''C4''"
        and req = "\<lparr>Host = ''shop.example.com'', Method = ''GET'', Path = ''/w''\<rparr>"]
    unfolding R by (simp add: redirectFor_def routeFor_def Lookup_def getValue_def)
qed

text \<open>
  Claim C1 fails on the code. A route \<open>A\<close> and a redirect \<open>B\<close> are registered for
  path \<open>/\<close> of \<open>example.com\<close>. The \<open>GET\<close> request for it is served by the
  redirect and not by the route. The \<open>POST\<close> request for the same host and path is
  served by neither: both targets are registered under \<open>GET\<close> and looked up under the
  method of the request, so every lookup misses and no target is called.
\<close>

theorem registered_pair_POST_unserved:
  "ServeHTTP
     (the (register New
        [RegRoute ''example.com'' ''/'' ''A'', RegRedirect ''example.com'' ''/'' ''B'']))
     [] \<lparr>Host = ''example.com'', Method = ''POST'', Path = ''/''\<rparr> = ([] :: (string, string) effect list) \<and>
   ServeHTTP
     (the (register New
        [RegRoute ''example.com'' ''/'' ''A'', RegRedirect ''example.com'' ''/'' ''B'']))
     [] \<lparr>Host = ''example.com'', Method = ''GET'', Path = ''/''\<rparr> = [ServeRedirect ''B'' :: (string, string) effect]"
  by (simp add: eval_defs ServeHTTP_eq redirectFor_def routeFor_def Lookup_def getValue_def)

text \<open>
  Claim C2 fails on the code. With one route registered for \<open>example.com\<close>, a request
  for \<open>other.example.com\<close> misses the exact host and the wildcard form
  \<open>*.example.com\<close>; \<open>ServeHTTP\<close> then returns without calling the not-found handler,
  and nothing has been done to the response writer.
\<close>

theorem dotted_miss_writes_nothing:
  "ServeHTTP (the (register New [RegRoute ''example.com'' ''/'' ''A'']))
     [] \<lparr>Host = ''other.example.com'', Method = ''GET'', Path = ''/''\<rparr> = ([] :: (string, string) effect list) \<and>
   notFound [] \<lparr>Host = ''other.example.com'', Method = ''GET'', Path = ''/''\<rparr>
     = [Write (''404 Not Found'' @ [CHR 0x0A]) :: (string, string) effect]"
  by (simp add: eval_defs ServeHTTP_eq redirectFor_def routeFor_def Lookup_def getValue_def
      notFound_eq)

text \<open>
  Claim C4, as the code has it. A request that misses both tables under a host without
  a dot gets the bytes \<open>404 Not Found\<close> followed by a newline written to its response,
  and nothing else is done to the response.
\<close>

theorem not_found_body:
  "CHR ''.'' \<notin> set (Host req) \<Longrightarrow> redirectFor r req (Host req) = None \<Longrightarrow>
   routeFor r req (Host req) = None \<Longrightarrow>
   ServeHTTP r rw req = rw @ [Write (''404 Not Found'' @ [CHR 0x0A])]"
  by (simp add: ServeHTTP_eq notFound_eq)

text \<open>The theorem on the empty table and a request for \<open>localhost\<close>.\<close>

theorem not_found_body_witness:
  "ServeHTTP New [] \<lparr>Host = ''localhost'', Method = ''GET'', Path = ''/''\<rparr>
     = [Write (''404 Not Found'' @ [CHR 0x0A]) :: (string, string) effect]"
  using not_found_body [where r = "New :: (string, string) Router" and rw = "[]"
      and req = "\<lparr>Host = ''localhost'', Method = ''GET'', Path = ''/''\<rparr>"]
  by (simp add: redirectFor_def routeFor_def New_def)

text \<open>
  Claim C4 as written gives the body as exactly \<open>404 Not Found\<close>. The body of the
  response to an unmatched request for \<open>localhost\<close> is one byte longer: it ends in a
  newline.
\<close>

theorem not_found_body_counterexample:
  "bodyWritten (ServeHTTP (New :: (string, string) Router) [] \<lparr>Host = ''localhost'', Method = ''GET'', Path = ''/''\<rparr>)
     = ''404 Not Found'' @ [CHR 0x0A] \<and>
   bodyWritten (ServeHTTP (New :: (string, string) Router) [] \<lparr>Host = ''localhost'', Method = ''GET'', Path = ''/''\<rparr>)
     \<noteq> ''404 Not Found''"
  by (simp add: ServeHTTP_eq redirectFor_def routeFor_def New_def notFound_eq bodyWritten_def)

text \<open>
  Claim C5. \<open>ReplaceSubdomainWithWildcard\<close> gives \<open>*.b.com\<close> for \<open>a.b.com\<close> and
  \<open>*.com\<close> for both \<open>b.com\<close> and \<open>com\<close>. For a request whose host has a dot, the
  wildcard form of the host is \<open>*\<close> followed by the host from its first dot on, which is
  what \<open>ReplaceSubdomainWithWildcard\<close> gives for it; and once the exact host has missed,
  the answer of \<open>ServeHTTP\<close> is decided by the redirect and route tables under that one
  key alone.
\<close>

theorem wildcard_single_level:
  "ReplaceSubdomainWithWildcard ''a.b.com'' = (''*.b.com'', True) \<and>
   ReplaceSubdomainWithWildcard ''b.com'' = (''*.com'', True) \<and>
   ReplaceSubdomainWithWildcard ''com'' = (''*.com'', True) \<and>
   (CHR ''.'' \<in> set (Host req) \<longrightarrow>
      fst (ReplaceSubdomainWithWildcard (Host req))
        = ''*'' @ dropWhile (\<lambda>c. c \<noteq> CHR ''.'') (Host req) \<and>
      (redirectFor r req (Host req) = None \<longrightarrow> routeFor r req (Host req) = None \<longrightarrow>
         ServeHTTP r rw req =
           (case redirectFor r req (''*'' @ dropWhile (\<lambda>c. c \<noteq> CHR ''.'') (Host req)) of
              Some b \<Rightarrow> rw @ [ServeRedirect b]
            | None \<Rightarrow>
                (case routeFor r req (''*'' @ dropWhile (\<lambda>c. c \<noteq> CHR ''.'') (Host req)) of
                   Some a \<Rightarrow> rw @ [ServeRoute a]
                 | None \<Rightarrow> rw))))"
proof (intro conjI impI)
  show "ReplaceSubdomainWithWildcard ''a.b.com'' = (''*.b.com'', True)"
    by (simp add: ReplaceSubdomainWithWildcard_def GetBaseDomain_eq)
  show "ReplaceSubdomainWithWildcard ''b.com'' = (''*.com'', True)"
    by (simp add: ReplaceSubdomainWithWildcard_def GetBaseDomain_eq)
  show "ReplaceSubdomainWithWildcard ''com'' = (''*.com'', True)"
    by (simp add: ReplaceSubdomainWithWildcard_def GetBaseDomain_eq)
next
  assume d: "CHR ''.'' \<in> set (Host req)"
  then show "fst (ReplaceSubdomainWithWildcard (Host req))
        = ''*'' @ dropWhile (\<lambda>c. c \<noteq> CHR ''.'') (Host req)"
    using dropWhile_present [OF d]
    by (simp add: ReplaceSubdomainWithWildcard_def GetBaseDomain_eq)
next
  assume "CHR ''.'' \<in> set (Host req)" "redirectFor r req (Host req) = None"
    "routeFor r req (Host req) = None"
  then show "ServeHTTP r rw req =
           (case redirectFor r req (''*'' @ dropWhile (\<lambda>c. c \<noteq> CHR ''.'') (Host req)) of
              Some b \<Rightarrow> rw @ [ServeRedirect b]
            | None \<Rightarrow>
                (case routeFor r req (''*'' @ dropWhile (\<lambda>c. c \<noteq> CHR ''.'') (Host req)) of
                   Some a \<Rightarrow> rw @ [ServeRoute a]
                 | None \<Rightarrow> rw))"
    by (simp add: ServeHTTP_eq)
qed

text \<open>
  The theorem on a table that holds one route, for \<open>*.example.com\<close>: the host
  \<open>a.b.example.com\<close> falls back to \<open>*.b.example.com\<close>, finds nothing, and the route is
  not served; the host \<open>shop.example.com\<close> falls back to \<open>*.example.com\<close> and gets it.
\<close>

theorem wildcard_single_level_witness:
  "fst (ReplaceSubdomainWithWildcard ''a.b.example.com'') = ''*.b.example.com'' \<and>
   ServeHTTP (the (register New [RegRoute ''*.example.com'' ''/'' ''C'']))
     [] \<lparr>Host = ''a.b.example.com'', Method = ''GET'', Path = ''/''\<rparr>
       = ([] :: (string, string) effect list) \<and>
   ServeHTTP (the (register New [RegRoute ''*.example.com'' ''/'' ''C'']))
     [] \<lparr>Host = ''shop.example.com'', Method = ''GET'', Path = ''/''\<rparr>
       = [ServeRoute ''C'' :: (string, string) effect]"
  using wildcard_single_level [where rw = "[]"
      and req = "\<lparr>Host = ''a.b.example.com'', Method = ''GET'', Path = ''/''\<rparr>"
      and r = "the (register New [RegRoute ''*.example.com'' ''/'' ''C''])
                 :: (string, string) Router"]
    wildcard_single_level [where rw = "[]"
      and req = "\<lparr>Host = ''shop.example.com'', Method = ''GET'', Path = ''/''\<rparr>"
      and r = "the (register New [RegRoute ''*.example.com'' ''/'' ''C''])
                 :: (string, string) Router"]
  by (simp add: eval_defs redirectFor_def routeFor_def Lookup_def getValue_def)

text \<open>
  Claim C6 fails on the code. The table holds path \<open>/\<close> under \<open>*\<close> and
  \<open>*localhost\<close> and another path under \<open>localhost\<close>. The request for path \<open>/\<close>
  of \<open>localhost\<close>, a host without a dot, misses both tables under its host;
  \<open>ServeHTTP\<close> hands it to the not-found handler and stops, without a look at the
  other keys. The handler writes the bytes \<open>404 Not Found\<close> and a newline and sends no
  status line before them, so the status of the response is the 200 that a first write
  implies, not 404.
\<close>

theorem no_dot_miss_status_200:
  "ServeHTTP
     (the (register New
        [RegRoute ''*'' ''/'' ''A'', RegRedirect ''*localhost'' ''/'' ''B'',
         RegRoute ''localhost'' ''/x'' ''C'']))
     [] \<lparr>Host = ''localhost'', Method = ''GET'', Path = ''/''\<rparr> = [Write (''404 Not Found'' @ [CHR 0x0A])] \<and>
   statusCode (ServeHTTP
     (the (register New
        [RegRoute ''*'' ''/'' ''A'', RegRedirect ''*localhost'' ''/'' ''B'',
         RegRoute ''localhost'' ''/x'' ''C'']))
     [] \<lparr>Host = ''localhost'', Method = ''GET'', Path = ''/''\<rparr>) = Some 200 \<and>
   statusCode (ServeHTTP
     (the (register New
        [RegRoute ''*'' ''/'' ''A'', RegRedirect ''*localhost'' ''/'' ''B'',
         RegRoute ''localhost'' ''/x'' ''C'']))
     [] \<lparr>Host = ''localhost'', Method = ''GET'', Path = ''/''\<rparr>) \<noteq> Some StatusNotFound"
  by (simp add: eval_defs ServeHTTP_eq redirectFor_def routeFor_def Lookup_def getValue_def
      notFound_eq StatusOK_def StatusNotFound_def)

section \<open>Registration and the request method\<close>

lemma getOnly_New: "getOnly httprouter_New"
  by (simp add: getOnly_def httprouter_New_def)

lemma Handler_getOnly:
  "getOnly h \<Longrightarrow> Handler h MethodGet p t = Some h' \<Longrightarrow> getOnly h'"
  by (auto simp: getOnly_def Handler_def Let_def split: if_splits)

lemma onlyGET_New: "onlyGET New"
  by (simp add: onlyGET_def New_def)

lemma AddRoute_onlyGET:
  assumes "onlyGET r" and "AddRoute r host path t = Some r'"
  shows "onlyGET r'"
proof (cases "route r host")
  case None
  with assms(2) obtain h' where
    h: "Handler httprouter_New MethodGet (if \<not> HasPrefix path ''/'' then ''/'' @ path else path) t = Some h'"
    and r': "r' = r\<lparr>route := (route r)(host \<mapsto> h')\<rparr>"
    by (auto simp: AddRoute_def hostRoute_def Let_def split: option.splits)
  from h have "getOnly h'" by (rule Handler_getOnly [OF getOnly_New])
  with assms(1) show ?thesis by (auto simp: onlyGET_def r')
next
  case (Some h0)
  with assms(2) obtain h' where
    h: "Handler h0 MethodGet (if \<not> HasPrefix path ''/'' then ''/'' @ path else path) t = Some h'"
    and r': "r' = r\<lparr>route := (route r)(host \<mapsto> h')\<rparr>"
    by (auto simp: AddRoute_def hostRoute_def Let_def split: option.splits)
  from assms(1) Some have "getOnly h0" by (auto simp: onlyGET_def)
  then have "getOnly h'" using h by (rule Handler_getOnly)
  with assms(1) show ?thesis by (auto simp: onlyGET_def r')
qed

lemma AddRedirect_onlyGET:
  assumes "onlyGET r" and "AddRedirect r host path t = Some r'"
  shows "onlyGET r'"
proof (cases "redirect r host")
  case None
  with assms(2) obtain h' where
    h: "Handler httprouter_New MethodGet (if \<not> HasPrefix path ''/'' then ''/'' @ path else path) t = Some h'"
    and r': "r' = r\<lparr>redirect := (redirect r)(host \<mapsto> h')\<rparr>"
    by (auto simp: AddRedirect_def hostRedirect_def Let_def split: option.splits)
  from h have "getOnly h'" by (rule Handler_getOnly [OF getOnly_New])
  with assms(1) show ?thesis by (auto simp: onlyGET_def r')
next
  case (Some h0)
  with assms(2) obtain h' where
    h: "Handler h0 MethodGet (if \<not> HasPrefix path ''/'' then ''/'' @ path else path) t = Some h'"
    and r': "r' = r\<lparr>redirect := (redirect r)(host \<mapsto> h')\<rparr>"
    by (auto simp: AddRedirect_def hostRedirect_def Let_def split: option.splits)
  from assms(1) Some have "getOnly h0" by (auto simp: onlyGET_def)
  then have "getOnly h'" using h by (rule Handler_getOnly)
  with assms(1) show ?thesis by (auto simp: onlyGET_def r')
qed

lemma register_onlyGET:
  "onlyGET r \<Longrightarrow> register r regs = Some r' \<Longrightarrow> onlyGET r'"
proof (induction r regs rule: register.induct)
  case (1 r)
  then show ?case by simp
next
  case (2 r host path t regs)
  then show ?case by (auto split: option.splits dest: AddRoute_onlyGET)
next
  case (3 r host path t regs)
  then show ?case by (auto split: option.splits dest: AddRedirect_onlyGET)
next
  case (4 r host t regs)
  then show ?case by (auto simp: AddService_def split: option.splits dest: AddRoute_onlyGET)
qed

lemma onlyGET_no_match:
  "onlyGET r \<Longrightarrow> Method req \<noteq> MethodGet \<Longrightarrow>
     redirectFor r req host = None \<and> routeFor r req host = None"
  by (auto simp: onlyGET_def getOnly_def redirectFor_def routeFor_def Lookup_def
      split: option.splits)

text \<open>
  In a table built by \<open>AddRoute\<close>, \<open>AddRedirect\<close> and \<open>AddService\<close> every
  registration is under \<open>GET\<close>, and a request with another method finds no redirect
  and no route under any host key.
\<close>

lemma non_GET_finds_nothing:
  assumes "register New regs = Some r" and "Method req \<noteq> MethodGet"
  shows "redirectFor r req host = None \<and> routeFor r req host = None"
proof -
  have "onlyGET r" using onlyGET_New assms(1) by (rule register_onlyGET)
  then show ?thesis using assms(2) by (rule onlyGET_no_match)
qed

text \<open>
  Claim C7 fails on the code. The claim has a registered host and path match a request
  whatever its method. With a route registered for \<open>/\<close> of \<open>example.com\<close>, the
  \<open>GET\<close> request for it is served by the route, and the \<open>POST\<close> request for it is
  served by nothing: the route is registered under \<open>GET\<close> and looked up under
  \<open>POST\<close>.
\<close>

theorem non_GET_request_unserved:
  "ServeHTTP (the (register New [RegRoute ''example.com'' ''/'' ''A'']))
     [] \<lparr>Host = ''example.com'', Method = ''POST'', Path = ''/''\<rparr>
       = ([] :: (string, string) effect list) \<and>
   ServeHTTP (the (register New [RegRoute ''example.com'' ''/'' ''A'']))
     [] \<lparr>Host = ''example.com'', Method = ''GET'', Path = ''/''\<rparr>
       = [ServeRoute ''A'' :: (string, string) effect]"
  by (simp add: eval_defs ServeHTTP_eq redirectFor_def routeFor_def Lookup_def getValue_def)

section \<open>The favicon provider\<close>

text \<open>
  When \<open>internalCompile\<close> returns an error (the query failed, a row failed to scan, or
  a \<open>PreProcess\<close> failed), \<open>threadCompile\<close> leaves the provider as it was.
\<close>

lemma rebuild_error_keeps_snapshot:
  "snd (internalCompile C P f Map.empty) \<noteq> None \<Longrightarrow> threadCompile C P f = f"
  by (auto simp: threadCompile_def split: prod.splits option.splits)

text \<open>
  Claim C3 fails on the code. The provider serves icons for \<open>example.com\<close>. The
  storage delivers the row of \<open>a.example.com\<close> and then fails while stepping to the
  next row: \<open>Next()\<close> returns false, the loop ends as it does after the last row, and
  \<open>internalCompile\<close>, which never asks \<open>query.Err()\<close>, returns no error.
  \<open>threadCompile\<close> publishes the map that holds the one row, and the icons of
  \<open>example.com\<close> are gone.
\<close>

theorem iteration_failure_publishes_partial:
  "snd (internalCompile (\<lambda>raw. raw) (\<lambda>l. (l, None :: string option))
     \<lparr>db = Inr \<lparr>delivered = [Inr (''a.example.com'', ''a.svg'', ''a.png'', ''a.ico'')],
                Err = Some ''connection lost''\<rparr>,
      cmd = ''inkscape'',
      faviconMap = [''example.com'' \<mapsto> \<lparr>Ico = ''i'', Png = ''p'', Svg = ''s''\<rparr>]\<rparr> Map.empty) = None \<and>
   GetIcons
     \<lparr>db = Inr \<lparr>delivered = [Inr (''a.example.com'', ''a.svg'', ''a.png'', ''a.ico'')],
                Err = Some ''connection lost''\<rparr>,
      cmd = ''inkscape'',
      faviconMap = [''example.com'' \<mapsto> \<lparr>Ico = ''i'', Png = ''p'', Svg = ''s''\<rparr>]\<rparr> ''example.com''
     = Some \<lparr>Ico = ''i'', Png = ''p'', Svg = ''s''\<rparr> \<and>
   GetIcons
     (threadCompile (\<lambda>raw. raw) (\<lambda>l. (l, None :: string option))
        \<lparr>db = Inr \<lparr>delivered = [Inr (''a.example.com'', ''a.svg'', ''a.png'', ''a.ico'')],
                Err = Some ''connection lost''\<rparr>,
      cmd = ''inkscape'',
      faviconMap = [''example.com'' \<mapsto> \<lparr>Ico = ''i'', Png = ''p'', Svg = ''s''\<rparr>]\<rparr>) ''example.com''
     = None \<and>
   GetIcons
     (threadCompile (\<lambda>raw. raw) (\<lambda>l. (l, None :: string option))
        \<lparr>db = Inr \<lparr>delivered = [Inr (''a.example.com'', ''a.svg'', ''a.png'', ''a.ico'')],
                Err = Some ''connection lost''\<rparr>,
      cmd = ''inkscape'',
      faviconMap = [''example.com'' \<mapsto> \<lparr>Ico = ''i'', Png = ''p'', Svg = ''s''\<rparr>]\<rparr>) ''a.example.com''
     = Some \<lparr>Ico = ''a.ico'', Png = ''a.png'', Svg = ''a.svg''\<rparr>"
  by (simp add: internalCompile_def threadCompile_def GetIcons_def)

end
